theory Spec2Isabelle
  imports Main "HOL-Library.Word"
begin

section \<open>Values, errors and responses\<close>

text \<open>
  A thrown JavaScript \<^verbatim>\<open>Error\<close>; only its \<^verbatim>\<open>message\<close> is ever read
  (\<^verbatim>\<open>err.message\<close> in the upload handler).
\<close>

datatype error = Error (message: string)

text \<open>
  JSON values, as \<^verbatim>\<open>express.json()\<close> hands them to the handlers and as
  \<^verbatim>\<open>res.json\<close> sends them. The program never computes with a number, so a number is
  kept as the text JavaScript prints for it. A JavaScript object is a list of
  key/value pairs in insertion order.
\<close>

datatype json =
    JNull
  | JBool bool
  | JNum string
  | JStr string
  | JArr "json list"
  | JObj "(string \<times> json) list"

text \<open>\<^verbatim>\<open>res.status(n).json(v)\<close>; \<^verbatim>\<open>res.json(v)\<close> alone leaves the status at 200.\<close>

record response =
  status :: nat
  json_body :: json

definition res_json :: "nat \<Rightarrow> json \<Rightarrow> response" where
  "res_json n v = \<lparr>status = n, json_body = v\<rparr>"

text \<open>
  Modelled from the spec: the payload of a verified token. The tokens are issued by
  \<^verbatim>\<open>routes/auth\<close>, which is not part of the sources at hand; section 4.1 of the
  specification says that verification yields a user identity (the subject id), which
  the handlers read as \<^verbatim>\<open>req.user.id\<close>.
\<close>

record jwt_payload =
  id_jwt :: string

type_synonym bytes = "8 word list"

text \<open>
  A file part of a multipart body, as the client sends it: the field name, the
  \<^verbatim>\<open>filename\<close> parameter, the content type and the bytes.
\<close>

record file_part =
  name_part :: string
  filename :: string
  type_part :: string
  data_part :: bytes

text \<open>A file held in memory by \<^verbatim>\<open>multer.memoryStorage()\<close>.\<close>

record multer_file =
  fieldname :: string
  originalname :: string
  mimetype :: string
  buffer :: bytes

text \<open>
  A request as the route's own middleware chain sees it: the \<^verbatim>\<open>Authorization\<close> header
  (absent, or its text), the parsed JSON body (a JavaScript object: a finite map
  from keys to values), the file parts of a multipart body, and the two fields the
  middleware fills in: \<^verbatim>\<open>req.user\<close> and \<^verbatim>\<open>req.file\<close>.
\<close>

record request =
  authorization :: "string option"
  body :: "string \<Rightarrow> json option"
  parts :: "file_part list"
  user_req :: "jwt_payload option"
  file_req :: "multer_file option"

section \<open>The external services\<close>

record put_object =
  Bucket :: string
  Key :: string
  Body :: bytes
  ContentType :: string

record image =
  Bytes :: bytes

record detect_labels =
  Image :: image
  MaxLabels :: nat

text \<open>A label of the detector's answer; only its \<^verbatim>\<open>Name\<close> is read.\<close>

record label =
  Name :: string

text \<open>
  Modelled from the spec: a capsule document. The Mongoose model \<^verbatim>\<open>models/Capsule\<close>
  is not part of the sources at hand. Section 3 of the specification gives it an
  owning user id, a title, a content, an optional media list and a release date, and
  section 4.3 says the four fields of the body are taken verbatim, with no
  validation; a field the body lacks is \<^verbatim>\<open>undefined\<close> (here \<open>None\<close>). The
  \<^verbatim>\<open>_id\<close> that \<^verbatim>\<open>new Capsule(...)\<close> draws is the value of a counter.
\<close>

record capsule =
  capsule_id :: nat
  user :: string
  title :: "json option"
  content :: "json option"
  media :: "json option"
  releaseDate :: "json option"

datatype cache_command = Get string | SetEx string nat string

text \<open>
  The state of the services behind the handlers: the commands sent to S3 and to
  Rekognition, the capsule collection with the queries run on it, and the Redis
  cache (each entry with the expiry it was written with, in seconds) with the
  commands sent to it.
\<close>

record world =
  s3_log :: "put_object list"
  rekognition_log :: "detect_labels list"
  capsules :: "capsule list"
  next_id :: nat
  find_log :: "string list"
  cache :: "string \<Rightarrow> (string \<times> nat) option"
  cache_log :: "cache_command list"

text \<open>
  What a request finds around it: the configuration, the verdict of
  \<^verbatim>\<open>jwt.verify\<close> under the server's secret, the UUID that \<^verbatim>\<open>crypto.randomUUID()\<close>
  draws, the answer of every remote call (an error when the call throws), and
  what JavaScript's \<^verbatim>\<open>JSON.parse\<close> makes of a text: the value parsed, or the
  error thrown.
\<close>

record env =
  AWS_S3_BUCKET :: string
  AWS_REGION :: string
  jwt_verify :: "string \<Rightarrow> error + jwt_payload"
  randomUUID :: string
  s3_send :: "put_object \<Rightarrow> error option"
  rekognition_send :: "detect_labels \<Rightarrow> error + label list"
  save_fault :: "capsule \<Rightarrow> error option"
  find_fault :: "string \<Rightarrow> error option"
  redis_get_fault :: "string \<Rightarrow> error option"
  redis_setEx_fault :: "string \<Rightarrow> nat \<Rightarrow> string \<Rightarrow> error option"
  JSON_parse :: "string \<Rightarrow> error + json"

section \<open>Library functions\<close>

text \<open>
  Node's \<^verbatim>\<open>path.extname\<close> (POSIX): trailing slashes are dropped, the last path
  component is taken, and the extension runs from its last dot to its end; it is
  empty when the component has no dot, when the last dot is its first character,
  and when the component is \<^verbatim>\<open>..\<close>.
\<close>

definition extname :: "string \<Rightarrow> string" where
  "extname p =
     (let trimmed = rev (dropWhile (\<lambda>c. c = CHR ''/'') (rev p));
          base = rev (takeWhile (\<lambda>c. c \<noteq> CHR ''/'') (rev trimmed));
          after_dot = rev (takeWhile (\<lambda>c. c \<noteq> CHR ''.'') (rev base));
          stem = take (length base - length after_dot - 1) base
      in if CHR ''.'' \<in> set base \<and> stem \<noteq> [] \<and> base \<noteq> ''..''
         then CHR ''.'' # after_dot else [])"

text \<open>
  \<^verbatim>\<open>JSON.stringify\<close>: no white space; in a string the quote, the backslash and the
  control characters are escaped.
\<close>

definition hex_digit :: "nat \<Rightarrow> char" where
  "hex_digit n = (''0123456789abcdef'') ! (n mod 16)"

definition escape_char :: "char \<Rightarrow> string" where
  "escape_char c =
     (if c = CHR 0x22 then [CHR 0x5C, CHR 0x22]
      else if c = CHR 0x5C then [CHR 0x5C, CHR 0x5C]
      else if c = CHR 0x08 then [CHR 0x5C, CHR ''b'']
      else if c = CHR 0x09 then [CHR 0x5C, CHR ''t'']
      else if c = CHR 0x0A then [CHR 0x5C, CHR ''n'']
      else if c = CHR 0x0C then [CHR 0x5C, CHR ''f'']
      else if c = CHR 0x0D then [CHR 0x5C, CHR ''r'']
      else if (of_char c :: nat) < 32
        then [CHR 0x5C, CHR ''u'', CHR ''0'', CHR ''0'',
              hex_digit (of_char c div 16), hex_digit (of_char c)]
      else [c])"

definition quote :: "string \<Rightarrow> string" where
  "quote s = CHR 0x22 # concat (map escape_char s) @ [CHR 0x22]"

fun join :: "string \<Rightarrow> string list \<Rightarrow> string" where
  "join sep [] = []"
| "join sep [x] = x"
| "join sep (x # y # ys) = x @ sep @ join sep (y # ys)"

fun JSON_stringify :: "json \<Rightarrow> string"
  and stringify_elements :: "json list \<Rightarrow> string list"
  and stringify_members :: "(string \<times> json) list \<Rightarrow> string list"
where
  "JSON_stringify JNull = ''null''"
| "JSON_stringify (JBool b) = (if b then ''true'' else ''false'')"
| "JSON_stringify (JNum n) = n"
| "JSON_stringify (JStr s) = quote s"
| "JSON_stringify (JArr vs) = ''['' @ join '','' (stringify_elements vs) @ '']''"
| "JSON_stringify (JObj kvs) = ''{'' @ join '','' (stringify_members kvs) @ ''}''"
| "stringify_elements [] = []"
| "stringify_elements (v # vs) = JSON_stringify v # stringify_elements vs"
| "stringify_members [] = []"
| "stringify_members ((k, v) # kvs) =
     (quote k @ '':'' @ JSON_stringify v) # stringify_members kvs"

text \<open>
  What \<^verbatim>\<open>JSON.stringify\<close> and \<^verbatim>\<open>res.json\<close> see of a capsule document: its fields in
  the order they were set; a field that is \<^verbatim>\<open>undefined\<close> is left out.
\<close>

definition field :: "string \<Rightarrow> json option \<Rightarrow> (string \<times> json) list" where
  "field k v = (case v of None \<Rightarrow> [] | Some x \<Rightarrow> [(k, x)])"

fun decimal :: "nat \<Rightarrow> string" where
  "decimal n =
     (if n < 10 then [hex_digit n] else decimal (n div 10) @ [hex_digit (n mod 10)])"

definition toJSON :: "capsule \<Rightarrow> json" where
  "toJSON c =
     JObj ([(''_id'', JStr (decimal (capsule_id c))), (''user'', JStr (user c))]
           @ field ''title'' (title c) @ field ''content'' (content c)
           @ field ''media'' (media c) @ field ''releaseDate'' (releaseDate c))"

section \<open>The authentication middleware\<close>

text \<open>
  \<^verbatim>\<open>authenticateToken\<close>. \<open>Inl\<close> is the response it sends itself; \<open>Inr\<close> is the
  request it passes to \<^verbatim>\<open>next()\<close>, with \<^verbatim>\<open>req.user\<close> set. The test \<^verbatim>\<open>!token\<close> holds
  for a missing header and for an empty one.
\<close>

definition authenticateToken :: "env \<Rightarrow> request \<Rightarrow> response + request" where
  "authenticateToken e req =
     (case authorization req of
        None \<Rightarrow> Inl (res_json 401 (JObj [(''message'', JStr ''Access Denied'')]))
      | Some token \<Rightarrow>
          if token = [] then Inl (res_json 401 (JObj [(''message'', JStr ''Access Denied'')]))
          else (case jwt_verify e token of
                  Inr verified \<Rightarrow> Inr (req\<lparr>user_req := Some verified\<rparr>)
                | Inl err \<Rightarrow> Inl (res_json 400 (JObj [(''message'', JStr ''Invalid Token'')]))))"

section \<open>Upload\<close>

text \<open>
  The file name multer is given for a part: the multipart parser keeps what follows
  the last slash or backslash of the \<^verbatim>\<open>filename\<close> parameter, and makes \<^verbatim>\<open>.\<close> and
  \<^verbatim>\<open>..\<close> the empty name.
\<close>

definition basename :: "string \<Rightarrow> string" where
  "basename path =
     (let base = rev (takeWhile (\<lambda>c. c \<noteq> CHR ''/'' \<and> c \<noteq> CHR 0x5C) (rev path))
      in if base = ''..'' \<or> base = ''.'' then [] else base)"

definition attach :: "file_part \<Rightarrow> multer_file" where
  "attach p = \<lparr>fieldname = name_part p, originalname = basename (filename p),
               mimetype = type_part p, buffer = data_part p\<rparr>"

text \<open>
  \<^verbatim>\<open>upload.single("file")\<close> of multer. A file part whose file name is empty is
  skipped: it is no file. Of the others: with none \<^verbatim>\<open>req.file\<close> stays undefined; one
  part of the expected field name becomes \<^verbatim>\<open>req.file\<close>; a part of another name, or a
  second part, is the error \<^verbatim>\<open>Unexpected field\<close>, which multer passes to
  \<^verbatim>\<open>next(err)\<close>.
\<close>

definition upload_single :: "string \<Rightarrow> request \<Rightarrow> error + request" where
  "upload_single name req =
     (case filter (\<lambda>p. basename (filename p) \<noteq> []) (parts req) of
        [] \<Rightarrow> Inr (req\<lparr>file_req := None\<rparr>)
      | [p] \<Rightarrow> if name_part p = name then Inr (req\<lparr>file_req := Some (attach p)\<rparr>)
               else Inl (Error ''Unexpected field'')
      | _ \<Rightarrow> Inl (Error ''Unexpected field''))"

definition upload_failed :: "error \<Rightarrow> response" where
  "upload_failed err =
     res_json 500 (JObj [(''message'', JStr ''Upload failed''), (''error'', JStr (message err))])"

definition file_url :: "env \<Rightarrow> string \<Rightarrow> string" where
  "file_url e fileName =
     ''https://'' @ AWS_S3_BUCKET e @ ''.s3.'' @ AWS_REGION e @ ''.amazonaws.com/'' @ fileName"

text \<open>The handler of \<^verbatim>\<open>POST /api/upload\<close>, with its \<^verbatim>\<open>try\<close>/\<^verbatim>\<open>catch\<close>.\<close>

definition upload_handler :: "env \<Rightarrow> request \<Rightarrow> world \<Rightarrow> response \<times> world" where
  "upload_handler e req w =
     (case file_req req of
        None \<Rightarrow> (res_json 400 (JObj [(''message'', JStr ''No file uploaded'')]), w)
      | Some f \<Rightarrow>
          let fileName = randomUUID e @ extname (originalname f);
              uploadParams = \<lparr>Bucket = AWS_S3_BUCKET e, Key = fileName,
                              Body = buffer f, ContentType = mimetype f\<rparr>;
              w1 = w\<lparr>s3_log := s3_log w @ [uploadParams]\<rparr>
          in (case s3_send e uploadParams of
                Some err \<Rightarrow> (upload_failed err, w1)
              | None \<Rightarrow>
                  let fileUrl = file_url e fileName;
                      rekognitionParams = \<lparr>Image = \<lparr>Bytes = buffer f\<rparr>, MaxLabels = 5\<rparr>;
                      w2 = w1\<lparr>rekognition_log := rekognition_log w1 @ [rekognitionParams]\<rparr>
                  in (case rekognition_send e rekognitionParams of
                        Inl err \<Rightarrow> (upload_failed err, w2)
                      | Inr Labels \<Rightarrow>
                          (res_json 200
                             (JObj [(''fileUrl'', JStr fileUrl),
                                    (''detectedLabels'', JArr (map (\<lambda>label. JStr (Name label)) Labels))]),
                           w2))))"

text \<open>
  What becomes of a request on a route: a response sent by the code at hand, or an
  error handed to Express (\<^verbatim>\<open>next(err)\<close>), whose answer is not this program's.
\<close>

datatype outcome = Sent response | Unhandled error

definition upload_route :: "env \<Rightarrow> request \<Rightarrow> world \<Rightarrow> outcome \<times> world" where
  "upload_route e req w =
     (case authenticateToken e req of
        Inl res \<Rightarrow> (Sent res, w)
      | Inr req1 \<Rightarrow>
          (case upload_single ''file'' req1 of
             Inl err \<Rightarrow> (Unhandled err, w)
           | Inr req2 \<Rightarrow> (case upload_handler e req2 w of (res, w') \<Rightarrow> (Sent res, w'))))"

section \<open>Capsule creation\<close>

definition server_error :: response where
  "server_error = res_json 500 (JObj [(''message'', JStr ''Server error'')])"

text \<open>
  The handler of \<^verbatim>\<open>POST /api/capsules/create\<close>. Reading \<^verbatim>\<open>req.user.id\<close> when
  \<^verbatim>\<open>req.user\<close> is undefined throws inside the \<^verbatim>\<open>try\<close>. \<^verbatim>\<open>new Capsule(...)\<close> draws
  the document's id; \<^verbatim>\<open>save()\<close> appends the document to the collection unless it
  throws.
\<close>

definition create_handler :: "env \<Rightarrow> request \<Rightarrow> world \<Rightarrow> response \<times> world" where
  "create_handler e req w =
     (case user_req req of
        None \<Rightarrow> (server_error, w)
      | Some u \<Rightarrow>
          let newCapsule = \<lparr>capsule_id = next_id w, user = id_jwt u,
                            title = body req ''title'', content = body req ''content'',
                            media = body req ''media'', releaseDate = body req ''releaseDate''\<rparr>;
              w1 = w\<lparr>next_id := Suc (next_id w)\<rparr>
          in (case save_fault e newCapsule of
                Some err \<Rightarrow> (server_error, w1)
              | None \<Rightarrow>
                  (res_json 201 (JObj [(''message'', JStr ''Capsule created successfully'')]),
                   w1\<lparr>capsules := capsules w1 @ [newCapsule]\<rparr>)))"

definition create_route :: "env \<Rightarrow> request \<Rightarrow> world \<Rightarrow> response \<times> world" where
  "create_route e req w =
     (case authenticateToken e req of
        Inl res \<Rightarrow> (res, w)
      | Inr req1 \<Rightarrow> create_handler e req1 w)"

section \<open>Capsule listing\<close>

text \<open>JavaScript's truth test on what \<^verbatim>\<open>redisClient.get\<close> returns: \<^verbatim>\<open>null\<close> and the
  empty string are false.\<close>

definition truthy :: "string option \<Rightarrow> bool" where
  "truthy x = (case x of None \<Rightarrow> False | Some s \<Rightarrow> s \<noteq> [])"

definition find_capsules :: "string \<Rightarrow> world \<Rightarrow> capsule list" where
  "find_capsules uid w = filter (\<lambda>c. user c = uid) (capsules w)"

text \<open>The handler of \<^verbatim>\<open>GET /api/capsules\<close>.\<close>

definition list_handler :: "env \<Rightarrow> request \<Rightarrow> world \<Rightarrow> response \<times> world" where
  "list_handler e req w =
     (case user_req req of
        None \<Rightarrow> (server_error, w)
      | Some u \<Rightarrow>
          let cacheKey = ''capsules_'' @ id_jwt u;
              w1 = w\<lparr>cache_log := cache_log w @ [Get cacheKey]\<rparr>
          in (case redis_get_fault e cacheKey of
                Some err \<Rightarrow> (server_error, w1)
              | None \<Rightarrow>
                  let cachedData = map_option fst (cache w1 cacheKey)
                  in if truthy cachedData
                     then (case JSON_parse e (the cachedData) of
                             Inl err \<Rightarrow> (server_error, w1)
                           | Inr v \<Rightarrow> (res_json 200 v, w1))
                     else
                       let w2 = w1\<lparr>find_log := find_log w1 @ [id_jwt u]\<rparr>
                       in (case find_fault e (id_jwt u) of
                             Some err \<Rightarrow> (server_error, w2)
                           | None \<Rightarrow>
                               let found = JArr (map toJSON (find_capsules (id_jwt u) w2));
                                   serialized = JSON_stringify found;
                                   w3 = w2\<lparr>cache_log := cache_log w2 @ [SetEx cacheKey 3600 serialized]\<rparr>
                               in (case redis_setEx_fault e cacheKey 3600 serialized of
                                     Some err \<Rightarrow> (server_error, w3)
                                   | None \<Rightarrow>
                                       (res_json 200 found,
                                        w3\<lparr>cache := (cache w3)(cacheKey \<mapsto> (serialized, 3600))\<rparr>)))))"

definition list_route :: "env \<Rightarrow> request \<Rightarrow> world \<Rightarrow> response \<times> world" where
  "list_route e req w =
     (case authenticateToken e req of
        Inl res \<Rightarrow> (res, w)
      | Inr req1 \<Rightarrow> list_handler e req1 w)"

section \<open>Sample requests and surroundings\<close>

text \<open>
  A surrounding in which every remote call succeeds: one token is valid and belongs
  to user \<^verbatim>\<open>u1\<close>, the label detector returns three labels, two of them alike, and
  \<^verbatim>\<open>JSON.parse\<close> is given on the two texts the samples hand to it: \<^verbatim>\<open>[]\<close>, the
  empty array, and \<^verbatim>\<open>{\<close>, which it rejects.
\<close>

definition env0 :: env where
  "env0 =
     \<lparr>AWS_S3_BUCKET = ''capsule-media'', AWS_REGION = ''eu-west-1'',
      jwt_verify = (\<lambda>t. if t = ''token-of-u1'' then Inr \<lparr>id_jwt = ''u1''\<rparr>
                         else if t = [] then Inl (Error ''jwt must be provided'')
                         else Inl (Error ''jwt malformed'')),
      randomUUID = ''0b0e7a3c-5d1f-4c2a-9a51-3f6f2f7d8e90'',
      s3_send = (\<lambda>_. None),
      rekognition_send =
        (\<lambda>_. Inr [\<lparr>Name = ''Dog''\<rparr>, \<lparr>Name = ''Animal''\<rparr>, \<lparr>Name = ''Dog''\<rparr>]),
      save_fault = (\<lambda>_. None), find_fault = (\<lambda>_. None),
      redis_get_fault = (\<lambda>_. None), redis_setEx_fault = (\<lambda>_ _ _. None),
      JSON_parse = (\<lambda>s. if s = ''[]'' then Inr (JArr [])
                         else Inl (Error ''Unexpected token''))\<rparr>"

definition world0 :: world where
  "world0 = \<lparr>s3_log = [], rekognition_log = [], capsules = [], next_id = 0,
             find_log = [], cache = Map.empty, cache_log = []\<rparr>"

definition photo :: file_part where
  "photo = \<lparr>name_part = ''file'', filename = ''holiday.photo.png'',
            type_part = ''image/png'', data_part = [137, 80, 78, 71]\<rparr>"

definition req0 :: request where
  "req0 = \<lparr>authorization = None, body = Map.empty, parts = [],
           user_req = None, file_req = None\<rparr>"

definition req_u1 :: request where
  "req_u1 = req0\<lparr>authorization := Some ''token-of-u1''\<rparr>"

definition req_photo :: request where
  "req_photo = req_u1\<lparr>parts := [photo]\<rparr>"

definition req_unnamed :: "string \<Rightarrow> request" where
  "req_unnamed n = req_u1\<lparr>parts := [photo\<lparr>filename := n\<rparr>]\<rparr>"

definition req_create :: request where
  "req_create =
     req_u1\<lparr>body := [''title'' \<mapsto> JStr ''T'', ''content'' \<mapsto> JStr ''C'', ''media'' \<mapsto> JArr [],
                      ''releaseDate'' \<mapsto> JStr ''2030-01-01'', ''user'' \<mapsto> JStr ''u2'']\<rparr>"

definition capsule_T :: "nat \<Rightarrow> capsule" where
  "capsule_T n = \<lparr>capsule_id = n, user = ''u1'', title = Some (JStr ''T''),
                  content = Some (JStr ''C''), media = Some (JArr []),
                  releaseDate = Some (JStr ''2030-01-01'')\<rparr>"

definition world_cached :: world where
  "world_cached = world0\<lparr>cache := [''capsules_u1'' \<mapsto> (''[]'', 3600)]\<rparr>"

definition world_empty_entry :: world where
  "world_empty_entry = world0\<lparr>cache := [''capsules_u1'' \<mapsto> ([], 3600)]\<rparr>"

definition world_broken_entry :: world where
  "world_broken_entry = world0\<lparr>cache := [''capsules_u1'' \<mapsto> (''{'', 3600)]\<rparr>"

definition world_store :: world where
  "world_store = world0\<lparr>capsules := [capsule_T 0, (capsule_T 1)\<lparr>user := ''u2''\<rparr>], next_id := 2\<rparr>"

section \<open>The authentication gate\<close>

lemma authenticateToken_verified:
  assumes "authorization req = Some t" and "t \<noteq> []" and "jwt_verify e t = Inr u"
  shows "authenticateToken e req = Inr (req\<lparr>user_req := Some u\<rparr>)"
  using assms by (simp add: authenticateToken_def)

lemma authenticateToken_denied:
  assumes "authorization req = None \<or> authorization req = Some []"
  shows "authenticateToken e req =
           Inl (res_json 401 (JObj [(''message'', JStr ''Access Denied'')]))"
  using assms by (auto simp: authenticateToken_def)

lemma authenticateToken_invalid:
  assumes "authorization req = Some t" and "t \<noteq> []" and "jwt_verify e t = Inl err"
  shows "authenticateToken e req =
           Inl (res_json 400 (JObj [(''message'', JStr ''Invalid Token'')]))"
  using assms by (simp add: authenticateToken_def)

text \<open>
  C4, as stated, fails on a header that is present and empty: the empty token does
  not pass verification, and the response is 401, not 400.
\<close>

theorem empty_header_is_401:
  "authorization (req0\<lparr>authorization := Some []\<rparr>) = Some []
   \<and> jwt_verify env0 [] = Inl (Error ''jwt must be provided'')
   \<and> status (fst (create_route env0 (req0\<lparr>authorization := Some []\<rparr>) world0)) = 401
   \<and> status (fst (create_route env0 (req0\<lparr>authorization := Some []\<rparr>) world0)) \<noteq> 400"
  by (simp add: req0_def env0_def create_route_def authenticateToken_def res_json_def)

text \<open>
  C4, amended: on each of the three protected routes, a request whose
  \<^verbatim>\<open>Authorization\<close> header is absent or empty is answered with status 401, and a
  request whose header is present and not empty but whose token fails verification
  is answered with status 400; in both cases the handler is not run: nothing is
  sent to any service and the state is unchanged.
\<close>

theorem auth_gate:
  "(authorization req = None \<or> authorization req = Some [] \<longrightarrow>
      upload_route e req w =
        (Sent (res_json 401 (JObj [(''message'', JStr ''Access Denied'')])), w)
      \<and> create_route e req w = (res_json 401 (JObj [(''message'', JStr ''Access Denied'')]), w)
      \<and> list_route e req w = (res_json 401 (JObj [(''message'', JStr ''Access Denied'')]), w))
   \<and> (\<forall>t err. authorization req = Some t \<and> t \<noteq> [] \<and> jwt_verify e t = Inl err \<longrightarrow>
      upload_route e req w =
        (Sent (res_json 400 (JObj [(''message'', JStr ''Invalid Token'')])), w)
      \<and> create_route e req w = (res_json 400 (JObj [(''message'', JStr ''Invalid Token'')]), w)
      \<and> list_route e req w = (res_json 400 (JObj [(''message'', JStr ''Invalid Token'')]), w))"
proof (intro conjI impI allI)
  assume a: "authorization req = None \<or> authorization req = Some []"
  note d = authenticateToken_denied [OF a, of e]
  show "upload_route e req w =
          (Sent (res_json 401 (JObj [(''message'', JStr ''Access Denied'')])), w)"
    by (simp add: upload_route_def d)
  show "create_route e req w = (res_json 401 (JObj [(''message'', JStr ''Access Denied'')]), w)"
    by (simp add: create_route_def d)
  show "list_route e req w = (res_json 401 (JObj [(''message'', JStr ''Access Denied'')]), w)"
    by (simp add: list_route_def d)
next
  fix t err
  assume a: "authorization req = Some t \<and> t \<noteq> [] \<and> jwt_verify e t = Inl err"
  then have i: "authenticateToken e req =
      Inl (res_json 400 (JObj [(''message'', JStr ''Invalid Token'')]))"
    using authenticateToken_invalid [of req t e err] by simp
  show "upload_route e req w =
          (Sent (res_json 400 (JObj [(''message'', JStr ''Invalid Token'')])), w)"
    by (simp add: upload_route_def i)
  show "create_route e req w = (res_json 400 (JObj [(''message'', JStr ''Invalid Token'')]), w)"
    by (simp add: create_route_def i)
  show "list_route e req w = (res_json 400 (JObj [(''message'', JStr ''Invalid Token'')]), w)"
    by (simp add: list_route_def i)
qed

theorem auth_gate_witness:
  "authorization req0 = None
   \<and> list_route env0 req0 world0 =
       (res_json 401 (JObj [(''message'', JStr ''Access Denied'')]), world0)
   \<and> authorization (req0\<lparr>authorization := Some ''garbage''\<rparr>) = Some ''garbage''
   \<and> jwt_verify env0 ''garbage'' = Inl (Error ''jwt malformed'')
   \<and> upload_route env0 (req0\<lparr>authorization := Some ''garbage''\<rparr>) world0 =
       (Sent (res_json 400 (JObj [(''message'', JStr ''Invalid Token'')])), world0)"
proof -
  have a: "authorization req0 = None"
    by (simp add: req0_def)
  have b: "authorization (req0\<lparr>authorization := Some ''garbage''\<rparr>) = Some ''garbage''
           \<and> ''garbage'' \<noteq> [] \<and> jwt_verify env0 ''garbage'' = Inl (Error ''jwt malformed'')"
    by (simp add: env0_def)
  from a auth_gate [of req0 env0 world0]
  have "list_route env0 req0 world0 =
          (res_json 401 (JObj [(''message'', JStr ''Access Denied'')]), world0)"
    by blast
  moreover from b auth_gate [of "req0\<lparr>authorization := Some ''garbage''\<rparr>" env0 world0]
  have "upload_route env0 (req0\<lparr>authorization := Some ''garbage''\<rparr>) world0 =
          (Sent (res_json 400 (JObj [(''message'', JStr ''Invalid Token'')])), world0)"
    by blast
  ultimately show ?thesis using a b by simp
qed

section \<open>Upload: the properties\<close>

lemma upload_route_one_file:
  assumes "authorization req = Some t" and "t \<noteq> []" and "jwt_verify e t = Inr u"
    and "parts req = [p]" and "name_part p = ''file''" and "basename (filename p) \<noteq> []"
  shows "upload_route e req w =
           (case upload_handler e (req\<lparr>user_req := Some u, file_req := Some (attach p)\<rparr>) w of
              (res, w') \<Rightarrow> (Sent res, w'))"
  using assms
  by (simp add: upload_route_def authenticateToken_verified [OF assms(1-3)] upload_single_def)

text \<open>
  C5: an authenticated upload request that carries no file part is answered with
  status 400 and the message \<^verbatim>\<open>No file uploaded\<close>; nothing is sent to S3 or to
  Rekognition (the state is unchanged).
\<close>

theorem upload_without_file:
  assumes "authorization req = Some t" and "t \<noteq> []" and "jwt_verify e t = Inr u"
    and "parts req = []"
  shows "upload_route e req w =
           (Sent (res_json 400 (JObj [(''message'', JStr ''No file uploaded'')])), w)
         \<and> s3_log (snd (upload_route e req w)) = s3_log w
         \<and> rekognition_log (snd (upload_route e req w)) = rekognition_log w"
  using assms(4)
  by (simp add: upload_route_def authenticateToken_verified [OF assms(1-3)]
      upload_single_def upload_handler_def)

theorem upload_without_file_witness:
  "authorization req_u1 = Some ''token-of-u1'' \<and> jwt_verify env0 ''token-of-u1'' = Inr \<lparr>id_jwt = ''u1''\<rparr>
   \<and> parts req_u1 = []
   \<and> upload_route env0 req_u1 world0 =
       (Sent (res_json 400 (JObj [(''message'', JStr ''No file uploaded'')])), world0)"
proof -
  have a: "authorization req_u1 = Some ''token-of-u1''" and b: "''token-of-u1'' \<noteq> []"
    and c: "jwt_verify env0 ''token-of-u1'' = Inr \<lparr>id_jwt = ''u1''\<rparr>" and d: "parts req_u1 = []"
    by (simp_all add: req_u1_def req0_def env0_def)
  from upload_without_file [OF a b c d, of world0] show ?thesis
    using a c d by simp
qed

text \<open>
  C3, as stated, fails on a file part whose file name is empty (as sent, or \<^verbatim>\<open>..\<close>,
  which the parser empties): the request has exactly one file part, named
  \<^verbatim>\<open>file\<close>, and yet no file reaches the handler: the answer is 400 and nothing is
  put to S3.
\<close>

theorem empty_filename_no_put:
  "parts (req_unnamed []) = [photo\<lparr>filename := []\<rparr>]
   \<and> name_part (photo\<lparr>filename := []\<rparr>) = ''file''
   \<and> upload_route env0 (req_unnamed []) world0 =
       (Sent (res_json 400 (JObj [(''message'', JStr ''No file uploaded'')])), world0)
   \<and> s3_log (snd (upload_route env0 (req_unnamed []) world0)) = []
   \<and> parts (req_unnamed ''..'') = [photo\<lparr>filename := ''..''\<rparr>]
   \<and> upload_route env0 (req_unnamed ''..'') world0 =
       (Sent (res_json 400 (JObj [(''message'', JStr ''No file uploaded'')])), world0)"
  by (simp add: req_unnamed_def req_u1_def req0_def env0_def photo_def world0_def
      upload_route_def authenticateToken_def upload_single_def basename_def upload_handler_def)

text \<open>
  C3, amended: for an authenticated upload request with exactly one file part, named
  \<^verbatim>\<open>file\<close>, whose file name is not empty, exactly one put is sent to S3, under the key
  made of the UUID followed by the extension of the file name; once the put has
  succeeded, the same bytes go to the label detector with \<^verbatim>\<open>MaxLabels\<close> 5; and when
  the detector answers, the response is 200 with the URL built from bucket, region
  and key, and with the names of the labels in the order and multiplicity the
  detector gave.
\<close>

theorem upload_one_file:
  assumes "authorization req = Some t" and "t \<noteq> []" and "jwt_verify e t = Inr u"
    and "parts req = [p]" and "name_part p = ''file''" and "basename (filename p) \<noteq> []"
    and "upload_route e req w = (out, w')"
  shows "let key = randomUUID e @ extname (basename (filename p));
             put = \<lparr>Bucket = AWS_S3_BUCKET e, Key = key, Body = data_part p,
                    ContentType = type_part p\<rparr>;
             detect = \<lparr>Image = \<lparr>Bytes = data_part p\<rparr>, MaxLabels = 5\<rparr>
         in s3_log w' = s3_log w @ [put]
            \<and> (s3_send e put = None \<longrightarrow>
                 rekognition_log w' = rekognition_log w @ [detect]
                 \<and> (\<forall>Labels. rekognition_send e detect = Inr Labels \<longrightarrow>
                      out = Sent (res_json 200
                        (JObj [(''fileUrl'',
                                JStr (''https://'' @ AWS_S3_BUCKET e @ ''.s3.'' @ AWS_REGION e
                                      @ ''.amazonaws.com/'' @ key)),
                               (''detectedLabels'', JArr (map (\<lambda>l. JStr (Name l)) Labels))]))))"
  using assms(7) unfolding upload_route_one_file [OF assms(1-6)]
  by (auto simp: upload_handler_def attach_def Let_def file_url_def
      split: option.splits sum.splits)

theorem upload_one_file_witness:
  "authorization req_photo = Some ''token-of-u1''
   \<and> jwt_verify env0 ''token-of-u1'' = Inr \<lparr>id_jwt = ''u1''\<rparr>
   \<and> parts req_photo = [photo] \<and> name_part photo = ''file''
   \<and> basename (filename photo) = ''holiday.photo.png''
   \<and> s3_log (snd (upload_route env0 req_photo world0)) =
        [\<lparr>Bucket = ''capsule-media'', Key = ''0b0e7a3c-5d1f-4c2a-9a51-3f6f2f7d8e90.png'',
          Body = [137, 80, 78, 71], ContentType = ''image/png''\<rparr>]
   \<and> rekognition_log (snd (upload_route env0 req_photo world0)) =
        [\<lparr>Image = \<lparr>Bytes = [137, 80, 78, 71]\<rparr>, MaxLabels = 5\<rparr>]
   \<and> fst (upload_route env0 req_photo world0) =
        Sent (res_json 200
          (JObj [(''fileUrl'', JStr ''https://capsule-media.s3.eu-west-1.amazonaws.com/0b0e7a3c-5d1f-4c2a-9a51-3f6f2f7d8e90.png''),
                 (''detectedLabels'', JArr [JStr ''Dog'', JStr ''Animal'', JStr ''Dog''])]))"
proof -
  have a: "authorization req_photo = Some ''token-of-u1''" and b: "''token-of-u1'' \<noteq> []"
    and c: "jwt_verify env0 ''token-of-u1'' = Inr \<lparr>id_jwt = ''u1''\<rparr>"
    and d: "parts req_photo = [photo]" and f: "name_part photo = ''file''"
    by (simp_all add: req_photo_def req_u1_def req0_def env0_def photo_def)
  have n: "basename (filename photo) = ''holiday.photo.png''"
    by (simp add: photo_def basename_def)
  then have n0: "basename (filename photo) \<noteq> []"
    by simp
  have g: "upload_route env0 req_photo world0 =
             (fst (upload_route env0 req_photo world0), snd (upload_route env0 req_photo world0))"
    by simp
  have x: "extname ''holiday.photo.png'' = ''.png''"
    by (simp add: extname_def)
  have s: "s3_send env0 = (\<lambda>_. None)"
    and r: "rekognition_send env0 =
        (\<lambda>_. Inr [\<lparr>Name = ''Dog''\<rparr>, \<lparr>Name = ''Animal''\<rparr>, \<lparr>Name = ''Dog''\<rparr>])"
    and k: "randomUUID env0 = ''0b0e7a3c-5d1f-4c2a-9a51-3f6f2f7d8e90''"
    and bk: "AWS_S3_BUCKET env0 = ''capsule-media''" and rg: "AWS_REGION env0 = ''eu-west-1''"
    and ph: "data_part photo = [137, 80, 78, 71]" "type_part photo = ''image/png''"
    by (simp_all add: env0_def photo_def)
  from upload_one_file [OF a b c d f n0 g] show ?thesis
    using a c d f n by (simp add: Let_def n x s r k bk rg ph world0_def)
qed

text \<open>
  C6: for an authenticated upload request with a file (one file part, named
  \<^verbatim>\<open>file\<close>, whose file name is not empty, so that multer hands it to the handler),
  when the put to S3 throws, or when it succeeds and the label detection throws, the
  response is status 500 with the message \<^verbatim>\<open>Upload failed\<close> and the message of the
  error thrown; the put stays the only command sent to S3: nothing deletes the
  object uploaded.
\<close>

theorem upload_failure:
  assumes "authorization req = Some t" and "t \<noteq> []" and "jwt_verify e t = Inr u"
    and "parts req = [p]" and "name_part p = ''file''" and "basename (filename p) \<noteq> []"
  shows "let put = \<lparr>Bucket = AWS_S3_BUCKET e,
                    Key = randomUUID e @ extname (basename (filename p)),
                    Body = data_part p, ContentType = type_part p\<rparr>;
             detect = \<lparr>Image = \<lparr>Bytes = data_part p\<rparr>, MaxLabels = 5\<rparr>
         in (\<forall>err. s3_send e put = Some err \<longrightarrow>
               upload_route e req w =
                 (Sent (res_json 500 (JObj [(''message'', JStr ''Upload failed''),
                                            (''error'', JStr (message err))])),
                  w\<lparr>s3_log := s3_log w @ [put]\<rparr>))
            \<and> (\<forall>err. s3_send e put = None \<and> rekognition_send e detect = Inl err \<longrightarrow>
               upload_route e req w =
                 (Sent (res_json 500 (JObj [(''message'', JStr ''Upload failed''),
                                            (''error'', JStr (message err))])),
                  w\<lparr>s3_log := s3_log w @ [put],
                    rekognition_log := rekognition_log w @ [detect]\<rparr>))"
  unfolding upload_route_one_file [OF assms(1-6)]
  by (simp add: upload_handler_def attach_def Let_def upload_failed_def)

theorem upload_failure_witness:
  "authorization req_photo = Some ''token-of-u1''
   \<and> jwt_verify env0 ''token-of-u1'' = Inr \<lparr>id_jwt = ''u1''\<rparr>
   \<and> parts req_photo = [photo] \<and> name_part photo = ''file''
   \<and> basename (filename photo) = ''holiday.photo.png''
   \<and> upload_route (env0\<lparr>s3_send := (\<lambda>_. Some (Error ''Access Denied''))\<rparr>) req_photo world0 =
       (Sent (res_json 500 (JObj [(''message'', JStr ''Upload failed''),
                                  (''error'', JStr ''Access Denied'')])),
        world0\<lparr>s3_log :=
          [\<lparr>Bucket = ''capsule-media'', Key = ''0b0e7a3c-5d1f-4c2a-9a51-3f6f2f7d8e90.png'',
            Body = [137, 80, 78, 71], ContentType = ''image/png''\<rparr>]\<rparr>)
   \<and> upload_route (env0\<lparr>rekognition_send := (\<lambda>_. Inl (Error ''Invalid image encoding''))\<rparr>)
        req_photo world0 =
       (Sent (res_json 500 (JObj [(''message'', JStr ''Upload failed''),
                                  (''error'', JStr ''Invalid image encoding'')])),
        world0\<lparr>s3_log :=
          [\<lparr>Bucket = ''capsule-media'', Key = ''0b0e7a3c-5d1f-4c2a-9a51-3f6f2f7d8e90.png'',
            Body = [137, 80, 78, 71], ContentType = ''image/png''\<rparr>],
          rekognition_log := [\<lparr>Image = \<lparr>Bytes = [137, 80, 78, 71]\<rparr>, MaxLabels = 5\<rparr>]\<rparr>)"
proof -
  let ?e1 = "env0\<lparr>s3_send := (\<lambda>_. Some (Error ''Access Denied''))\<rparr>"
  let ?e2 = "env0\<lparr>rekognition_send := (\<lambda>_. Inl (Error ''Invalid image encoding''))\<rparr>"
  have a: "authorization req_photo = Some ''token-of-u1''" and b: "''token-of-u1'' \<noteq> []"
    and c: "jwt_verify env0 ''token-of-u1'' = Inr \<lparr>id_jwt = ''u1''\<rparr>"
    and c1: "jwt_verify ?e1 ''token-of-u1'' = Inr \<lparr>id_jwt = ''u1''\<rparr>"
    and c2: "jwt_verify ?e2 ''token-of-u1'' = Inr \<lparr>id_jwt = ''u1''\<rparr>"
    and d: "parts req_photo = [photo]" and f: "name_part photo = ''file''"
    by (simp_all add: req_photo_def req_u1_def req0_def env0_def photo_def)
  have n: "basename (filename photo) = ''holiday.photo.png''"
    by (simp add: photo_def basename_def)
  then have n0: "basename (filename photo) \<noteq> []"
    by simp
  have x: "extname ''holiday.photo.png'' = ''.png''"
    by (simp add: extname_def)
  have k: "randomUUID env0 = ''0b0e7a3c-5d1f-4c2a-9a51-3f6f2f7d8e90''"
    and bk: "AWS_S3_BUCKET env0 = ''capsule-media''" and s: "s3_send env0 = (\<lambda>_. None)"
    and ph: "data_part photo = [137, 80, 78, 71]" "type_part photo = ''image/png''"
    by (simp_all add: env0_def photo_def)
  from upload_failure [OF a b c1 d f n0, of world0]
  have "upload_route ?e1 req_photo world0 =
       (Sent (res_json 500 (JObj [(''message'', JStr ''Upload failed''),
                                  (''error'', JStr ''Access Denied'')])),
        world0\<lparr>s3_log :=
          [\<lparr>Bucket = ''capsule-media'', Key = ''0b0e7a3c-5d1f-4c2a-9a51-3f6f2f7d8e90.png'',
            Body = [137, 80, 78, 71], ContentType = ''image/png''\<rparr>]\<rparr>)"
    by (simp add: Let_def n x k bk ph world0_def)
  moreover from upload_failure [OF a b c2 d f n0, of world0]
  have "upload_route ?e2 req_photo world0 =
       (Sent (res_json 500 (JObj [(''message'', JStr ''Upload failed''),
                                  (''error'', JStr ''Invalid image encoding'')])),
        world0\<lparr>s3_log :=
          [\<lparr>Bucket = ''capsule-media'', Key = ''0b0e7a3c-5d1f-4c2a-9a51-3f6f2f7d8e90.png'',
            Body = [137, 80, 78, 71], ContentType = ''image/png''\<rparr>],
          rekognition_log := [\<lparr>Image = \<lparr>Bytes = [137, 80, 78, 71]\<rparr>, MaxLabels = 5\<rparr>]\<rparr>)"
    by (simp add: Let_def n x k bk s ph world0_def)
  ultimately show ?thesis using a c d f n by simp
qed

section \<open>Capsule creation: the properties\<close>

lemma create_route_verified:
  assumes "authorization req = Some t" and "t \<noteq> []" and "jwt_verify e t = Inr u"
  shows "create_route e req w = create_handler e (req\<lparr>user_req := Some u\<rparr>) w"
  by (simp add: create_route_def authenticateToken_verified [OF assms])

lemma create_route_201:
  assumes "create_route e req w = (res, w')" and "status res = 201"
  shows "\<exists>t u. authorization req = Some t \<and> t \<noteq> [] \<and> jwt_verify e t = Inr u"
  using assms
  by (auto simp: create_route_def authenticateToken_def res_json_def
      split: option.splits if_splits sum.splits)

lemma create_route_ignores_user_field:
  "create_route e (req\<lparr>body := (body req)(''user'' \<mapsto> v)\<rparr>) w = create_route e req w"
  by (cases "authorization req"; cases "jwt_verify e (the (authorization req))")
    (simp_all add: create_route_def authenticateToken_def create_handler_def Let_def)

text \<open>
  C2: whenever a create request is answered with status 201, its token was verified
  and the request appended exactly one document to the collection, whose owner is
  the id of the verified token; a \<^verbatim>\<open>user\<close> field in the body changes neither the
  response nor the resulting state.
\<close>

theorem create_owner:
  assumes "create_route e req w = (res, w')" and "status res = 201"
  shows "(\<exists>t u. authorization req = Some t \<and> jwt_verify e t = Inr u
           \<and> capsules w' = capsules w @
               [\<lparr>capsule_id = next_id w, user = id_jwt u,
                 title = body req ''title'', content = body req ''content'',
                 media = body req ''media'', releaseDate = body req ''releaseDate''\<rparr>])
         \<and> (\<forall>v. create_route e (req\<lparr>body := (body req)(''user'' \<mapsto> v)\<rparr>) w = (res, w'))"
proof
  from create_route_201 [OF assms] obtain t u
    where a: "authorization req = Some t" "t \<noteq> []" "jwt_verify e t = Inr u"
    by blast
  from assms show "\<exists>t u. authorization req = Some t \<and> jwt_verify e t = Inr u
           \<and> capsules w' = capsules w @
               [\<lparr>capsule_id = next_id w, user = id_jwt u,
                 title = body req ''title'', content = body req ''content'',
                 media = body req ''media'', releaseDate = body req ''releaseDate''\<rparr>]"
    unfolding create_route_verified [OF a]
    using a by (auto simp: create_handler_def Let_def server_error_def res_json_def
        split: option.splits)
  show "\<forall>v. create_route e (req\<lparr>body := (body req)(''user'' \<mapsto> v)\<rparr>) w = (res, w')"
    using assms(1) by (simp add: create_route_ignores_user_field)
qed

theorem create_owner_witness:
  "status (fst (create_route env0 req_create world0)) = 201
   \<and> body req_create ''user'' = Some (JStr ''u2'')
   \<and> capsules (snd (create_route env0 req_create world0)) = [capsule_T 0]
   \<and> user (capsule_T 0) = ''u1''"
proof -
  have r: "create_route env0 req_create world0 =
      (fst (create_route env0 req_create world0), snd (create_route env0 req_create world0))"
    by simp
  have s: "status (fst (create_route env0 req_create world0)) = 201"
    by (simp add: create_route_def authenticateToken_def create_handler_def Let_def
        req_create_def req_u1_def req0_def env0_def res_json_def)
  have a: "authorization req_create = Some ''token-of-u1''"
    and c: "jwt_verify env0 ''token-of-u1'' = Inr \<lparr>id_jwt = ''u1''\<rparr>"
    by (simp_all add: req_create_def req_u1_def req0_def env0_def)
  from create_owner [OF r s] obtain t u
    where t: "authorization req_create = Some t" and u: "jwt_verify env0 t = Inr u"
      and k: "capsules (snd (create_route env0 req_create world0)) = capsules world0 @
               [\<lparr>capsule_id = next_id world0, user = id_jwt u,
                 title = body req_create ''title'', content = body req_create ''content'',
                 media = body req_create ''media'',
                 releaseDate = body req_create ''releaseDate''\<rparr>]"
    by blast
  from t a have "t = ''token-of-u1''" by simp
  with u c have "u = \<lparr>id_jwt = ''u1''\<rparr>" by simp
  with k have "capsules (snd (create_route env0 req_create world0)) = [capsule_T 0]"
    by (simp add: world0_def capsule_T_def req_create_def)
  with s show ?thesis
    by (simp add: req_create_def capsule_T_def)
qed

text \<open>
  C9: the same create request, sent twice by an authenticated caller and saved both
  times, is acknowledged with status 201 both times and leaves two documents in the
  collection, equal in owner and fields and distinct by their ids.
\<close>

theorem create_twice:
  assumes "authorization req = Some t" and "t \<noteq> []" and "jwt_verify e t = Inr u"
    and "c1 = \<lparr>capsule_id = next_id w, user = id_jwt u,
               title = body req ''title'', content = body req ''content'',
               media = body req ''media'', releaseDate = body req ''releaseDate''\<rparr>"
    and "c2 = c1\<lparr>capsule_id := Suc (next_id w)\<rparr>"
    and "save_fault e c1 = None" and "save_fault e c2 = None"
    and "create_route e req w = (res1, w1)" and "create_route e req w1 = (res2, w2)"
  shows "status res1 = 201 \<and> status res2 = 201
         \<and> capsules w1 = capsules w @ [c1]
         \<and> capsules w2 = capsules w @ [c1, c2]
         \<and> c1 \<noteq> c2
         \<and> length (capsules w2) = length (capsules w) + 2"
proof -
  have 1: "res1 = res_json 201 (JObj [(''message'', JStr ''Capsule created successfully'')])"
    and w1: "w1 = w\<lparr>next_id := Suc (next_id w), capsules := capsules w @ [c1]\<rparr>"
    using assms(8) assms(4,6) unfolding create_route_verified [OF assms(1-3)]
    by (auto simp: create_handler_def Let_def)
  have 2: "res2 = res_json 201 (JObj [(''message'', JStr ''Capsule created successfully'')])"
    and w2: "w2 = w1\<lparr>next_id := Suc (next_id w1), capsules := capsules w1 @ [c2]\<rparr>"
    using assms(9) assms(4,5,7) unfolding create_route_verified [OF assms(1-3)] w1
    by (auto simp: create_handler_def Let_def)
  have "c1 \<noteq> c2"
  proof
    assume "c1 = c2"
    then have "capsule_id c1 = capsule_id c2" by simp
    then show False using assms(4,5) by simp
  qed
  then show ?thesis
    using 1 2 w1 w2 by (simp add: res_json_def)
qed


theorem create_twice_witness:
  "authorization req_create = Some ''token-of-u1''
   \<and> jwt_verify env0 ''token-of-u1'' = Inr \<lparr>id_jwt = ''u1''\<rparr>
   \<and> save_fault env0 (capsule_T 0) = None \<and> save_fault env0 (capsule_T 1) = None
   \<and> status (fst (create_route env0 req_create world0)) = 201
   \<and> status (fst (create_route env0 req_create (snd (create_route env0 req_create world0)))) = 201
   \<and> capsules (snd (create_route env0 req_create (snd (create_route env0 req_create world0)))) =
        [capsule_T 0, capsule_T 1]
   \<and> capsule_T 0 \<noteq> capsule_T 1"
proof -
  let ?w1 = "snd (create_route env0 req_create world0)"
  have a: "authorization req_create = Some ''token-of-u1''" and b: "''token-of-u1'' \<noteq> []"
    and c: "jwt_verify env0 ''token-of-u1'' = Inr \<lparr>id_jwt = ''u1''\<rparr>"
    and s: "save_fault env0 (capsule_T 0) = None" "save_fault env0 (capsule_T 1) = None"
    by (simp_all add: req_create_def req_u1_def req0_def env0_def)
  have c1: "capsule_T 0 = \<lparr>capsule_id = next_id world0, user = id_jwt \<lparr>id_jwt = ''u1''\<rparr>,
               title = body req_create ''title'', content = body req_create ''content'',
               media = body req_create ''media'', releaseDate = body req_create ''releaseDate''\<rparr>"
    by (simp add: capsule_T_def world0_def req_create_def)
  have c2: "capsule_T 1 = (capsule_T 0)\<lparr>capsule_id := Suc (next_id world0)\<rparr>"
    by (simp add: capsule_T_def world0_def)
  have r1: "create_route env0 req_create world0 = (fst (create_route env0 req_create world0), ?w1)"
    and r2: "create_route env0 req_create ?w1 =
      (fst (create_route env0 req_create ?w1), snd (create_route env0 req_create ?w1))"
    by simp_all
  from create_twice [OF a b c c1 c2 s r1 r2] show ?thesis
    using a c s by (simp add: world0_def)
qed

text \<open>
  C8: a create request, whatever its outcome, sends no command to the cache and
  leaves every cache entry as it was. So a listing that finds a cached entry for its
  caller is answered after the creation exactly as it would have been before it:
  the new capsule is not in the answer.
\<close>

theorem create_leaves_cache:
  "cache (snd (create_route e req w)) = cache w
   \<and> cache_log (snd (create_route e req w)) = cache_log w
   \<and> (\<forall>e2 req2 t u.
         authorization req2 = Some t \<and> t \<noteq> [] \<and> jwt_verify e2 t = Inr u
         \<and> truthy (map_option fst (cache w (''capsules_'' @ id_jwt u)))
         \<longrightarrow> fst (list_route e2 req2 (snd (create_route e req w))) = fst (list_route e2 req2 w))"
proof -
  have frame: "cache (snd (create_route e req w)) = cache w
      \<and> cache_log (snd (create_route e req w)) = cache_log w"
    by (cases "authorization req"; cases "jwt_verify e (the (authorization req))")
      (simp_all add: create_route_def authenticateToken_def create_handler_def Let_def
        split: option.splits)
  have "fst (list_route e2 req2 (snd (create_route e req w))) = fst (list_route e2 req2 w)"
    if a: "authorization req2 = Some t \<and> t \<noteq> [] \<and> jwt_verify e2 t = Inr u
         \<and> truthy (map_option fst (cache w (''capsules_'' @ id_jwt u)))" for e2 req2 t u
  proof -
    from a have v: "authenticateToken e2 req2 = Inr (req2\<lparr>user_req := Some u\<rparr>)"
      by (simp add: authenticateToken_verified)
    from a frame show ?thesis
      by (simp add: list_route_def v list_handler_def Let_def split: option.splits sum.splits)
  qed
  with frame show ?thesis by blast
qed

theorem create_leaves_cache_witness:
  "authorization req_u1 = Some ''token-of-u1''
   \<and> jwt_verify env0 ''token-of-u1'' = Inr \<lparr>id_jwt = ''u1''\<rparr>
   \<and> truthy (map_option fst (cache world_cached ''capsules_u1''))
   \<and> capsules (snd (create_route env0 req_create world_cached)) = [capsule_T 0]
   \<and> fst (list_route env0 req_u1 (snd (create_route env0 req_create world_cached))) =
       res_json 200 (JArr [])"
proof -
  have a: "authorization req_u1 = Some ''token-of-u1'' \<and> ''token-of-u1'' \<noteq> []
           \<and> jwt_verify env0 ''token-of-u1'' = Inr \<lparr>id_jwt = ''u1''\<rparr>
           \<and> truthy (map_option fst (cache world_cached (''capsules_'' @ id_jwt \<lparr>id_jwt = ''u1''\<rparr>)))"
    by (simp add: req_u1_def req0_def env0_def world_cached_def world0_def truthy_def)
  from create_leaves_cache [of env0 req_create world_cached] a
  have "fst (list_route env0 req_u1 (snd (create_route env0 req_create world_cached))) =
          fst (list_route env0 req_u1 world_cached)"
    by blast
  moreover have "fst (list_route env0 req_u1 world_cached) = res_json 200 (JArr [])"
    by (simp add: list_route_def authenticateToken_def list_handler_def Let_def truthy_def
        req_u1_def req0_def env0_def world_cached_def world0_def)
  moreover have "capsules (snd (create_route env0 req_create world_cached)) = [capsule_T 0]"
    by (simp add: create_route_def authenticateToken_def create_handler_def Let_def
        req_create_def req_u1_def req0_def env0_def world_cached_def world0_def capsule_T_def)
  ultimately show ?thesis using a by simp
qed

section \<open>Capsule listing: the properties\<close>

lemma list_route_verified:
  assumes "authorization req = Some t" and "t \<noteq> []" and "jwt_verify e t = Inr u"
  shows "list_route e req w = list_handler e (req\<lparr>user_req := Some u\<rparr>) w"
  by (simp add: list_route_def authenticateToken_verified [OF assms])

text \<open>
  C1, as stated, fails when the cache holds the empty string for the key: the test
  \<^verbatim>\<open>if (cachedData)\<close> is false on it and the store is queried. It also fails when
  the cache holds a text that \<^verbatim>\<open>JSON.parse\<close> rejects: the response is 500 and no
  value is returned.
\<close>

theorem cached_value_not_served:
  "cache world_empty_entry ''capsules_u1'' = Some ([], 3600)
   \<and> find_log world_empty_entry = []
   \<and> find_log (snd (list_route env0 req_u1 world_empty_entry)) = [''u1'']
   \<and> cache world_broken_entry ''capsules_u1'' = Some (''{'', 3600)
   \<and> JSON_parse env0 ''{'' = Inl (Error ''Unexpected token'')
   \<and> fst (list_route env0 req_u1 world_broken_entry) =
       res_json 500 (JObj [(''message'', JStr ''Server error'')])"
  by (simp add: list_route_def authenticateToken_def list_handler_def Let_def truthy_def
      req_u1_def req0_def env0_def world_empty_entry_def world_broken_entry_def world0_def
      server_error_def)

text \<open>
  C1, amended: for an authenticated listing request whose cache lookup does not
  throw, the key looked up is the prefix \<^verbatim>\<open>capsules_\<close> followed by the caller's id.
  If the cache holds for it a text that is not empty and that \<^verbatim>\<open>JSON.parse\<close>
  accepts, the parsed value is returned with status 200 and the store is not
  queried: the lookup is the only effect. If the cache holds nothing for it, or the
  empty string, and neither the store query nor the cache write throws, the store
  is queried for the caller's capsules, their serialization is written to the
  cache under the key with an expiry of 3600 seconds, and they are returned.
\<close>

theorem cache_aside:
  assumes "authorization req = Some t" and "t \<noteq> []" and "jwt_verify e t = Inr u"
    and "cacheKey = ''capsules_'' @ id_jwt u"
    and "redis_get_fault e cacheKey = None"
    and "list_route e req w = (res, w')"
  shows "(\<forall>s ttl v. cache w cacheKey = Some (s, ttl) \<and> s \<noteq> [] \<and> JSON_parse e s = Inr v \<longrightarrow>
            res = res_json 200 v
            \<and> w' = w\<lparr>cache_log := cache_log w @ [Get cacheKey]\<rparr>
            \<and> find_log w' = find_log w)
         \<and> (\<forall>found serialized.
              (cache w cacheKey = None \<or> (\<exists>ttl. cache w cacheKey = Some ([], ttl)))
              \<and> found = JArr (map toJSON (filter (\<lambda>c. user c = id_jwt u) (capsules w)))
              \<and> serialized = JSON_stringify found
              \<and> find_fault e (id_jwt u) = None
              \<and> redis_setEx_fault e cacheKey 3600 serialized = None \<longrightarrow>
            res = res_json 200 found
            \<and> find_log w' = find_log w @ [id_jwt u]
            \<and> cache w' = (cache w)(cacheKey \<mapsto> (serialized, 3600))
            \<and> cache_log w' = cache_log w @ [Get cacheKey, SetEx cacheKey 3600 serialized])"
proof (intro conjI allI impI)
  note h = assms(6) [unfolded list_route_verified [OF assms(1-3)]]
  {
    fix s ttl v
    assume a: "cache w cacheKey = Some (s, ttl) \<and> s \<noteq> [] \<and> JSON_parse e s = Inr v"
    with h assms(4,5) have "res = res_json 200 v \<and> w' = w\<lparr>cache_log := cache_log w @ [Get cacheKey]\<rparr>"
      by (auto simp: list_handler_def Let_def truthy_def)
    then show "res = res_json 200 v" and "w' = w\<lparr>cache_log := cache_log w @ [Get cacheKey]\<rparr>"
      and "find_log w' = find_log w"
      by simp_all
  }
  {
    fix found serialized
    assume a: "(cache w cacheKey = None \<or> (\<exists>ttl. cache w cacheKey = Some ([], ttl)))
              \<and> found = JArr (map toJSON (filter (\<lambda>c. user c = id_jwt u) (capsules w)))
              \<and> serialized = JSON_stringify found
              \<and> find_fault e (id_jwt u) = None
              \<and> redis_setEx_fault e cacheKey 3600 serialized = None"
    then have m: "\<not> truthy (map_option fst (cache w cacheKey))"
      by (auto simp: truthy_def)
    from h assms(4,5) a m
    have "res = res_json 200 found \<and>
          w' = w\<lparr>cache_log := cache_log w @ [Get cacheKey, SetEx cacheKey 3600 serialized],
                 find_log := find_log w @ [id_jwt u],
                 cache := (cache w)(cacheKey \<mapsto> (serialized, 3600))\<rparr>"
      by (auto simp: list_handler_def Let_def find_capsules_def)
    then show "res = res_json 200 found" and "find_log w' = find_log w @ [id_jwt u]"
      and "cache w' = (cache w)(cacheKey \<mapsto> (serialized, 3600))"
      and "cache_log w' = cache_log w @ [Get cacheKey, SetEx cacheKey 3600 serialized]"
      by simp_all
  }
qed


theorem cache_aside_witness:
  "authorization req_u1 = Some ''token-of-u1''
   \<and> jwt_verify env0 ''token-of-u1'' = Inr \<lparr>id_jwt = ''u1''\<rparr>
   \<and> cache world_cached ''capsules_u1'' = Some (''[]'', 3600)
   \<and> JSON_parse env0 ''[]'' = Inr (JArr [])
   \<and> list_route env0 req_u1 world_cached =
       (res_json 200 (JArr []), world_cached\<lparr>cache_log := [Get ''capsules_u1'']\<rparr>)
   \<and> cache world_store ''capsules_u1'' = None
   \<and> fst (list_route env0 req_u1 world_store) = res_json 200 (JArr [toJSON (capsule_T 0)])
   \<and> find_log (snd (list_route env0 req_u1 world_store)) = [''u1'']
   \<and> cache (snd (list_route env0 req_u1 world_store)) ''capsules_u1'' =
       Some (JSON_stringify (JArr [toJSON (capsule_T 0)]), 3600)"
proof -
  have a: "authorization req_u1 = Some ''token-of-u1''" and b: "''token-of-u1'' \<noteq> []"
    and c: "jwt_verify env0 ''token-of-u1'' = Inr \<lparr>id_jwt = ''u1''\<rparr>"
    and k: "''capsules_u1'' = ''capsules_'' @ id_jwt \<lparr>id_jwt = ''u1''\<rparr>"
    and g: "redis_get_fault env0 ''capsules_u1'' = None"
    by (simp_all add: req_u1_def req0_def env0_def)
  have hit: "cache world_cached ''capsules_u1'' = Some (''[]'', 3600) \<and> ''[]'' \<noteq> []
      \<and> JSON_parse env0 ''[]'' = Inr (JArr [])"
    by (simp add: world_cached_def world0_def env0_def)
  have r1: "list_route env0 req_u1 world_cached =
      (fst (list_route env0 req_u1 world_cached), snd (list_route env0 req_u1 world_cached))"
    and r2: "list_route env0 req_u1 world_store =
      (fst (list_route env0 req_u1 world_store), snd (list_route env0 req_u1 world_store))"
    by simp_all
  have f: "filter (\<lambda>c. user c = id_jwt \<lparr>id_jwt = ''u1''\<rparr>) (capsules world_store) = [capsule_T 0]"
    by (simp add: world_store_def world0_def capsule_T_def)
  have miss: "(cache world_store ''capsules_u1'' = None
        \<or> (\<exists>ttl. cache world_store ''capsules_u1'' = Some ([], ttl)))
      \<and> JArr [toJSON (capsule_T 0)] =
          JArr (map toJSON (filter (\<lambda>c. user c = id_jwt \<lparr>id_jwt = ''u1''\<rparr>) (capsules world_store)))
      \<and> JSON_stringify (JArr [toJSON (capsule_T 0)]) = JSON_stringify (JArr [toJSON (capsule_T 0)])
      \<and> find_fault env0 (id_jwt \<lparr>id_jwt = ''u1''\<rparr>) = None
      \<and> redis_setEx_fault env0 ''capsules_u1'' 3600 (JSON_stringify (JArr [toJSON (capsule_T 0)])) = None"
    unfolding f by (simp add: world_store_def world0_def env0_def)
  from cache_aside [OF a b c k g r1, THEN conjunct1, rule_format, OF hit]
  have "fst (list_route env0 req_u1 world_cached) = res_json 200 (JArr [])
      \<and> snd (list_route env0 req_u1 world_cached) =
          world_cached\<lparr>cache_log := cache_log world_cached @ [Get ''capsules_u1'']\<rparr>"
    by simp
  then have 1: "list_route env0 req_u1 world_cached =
       (res_json 200 (JArr []), world_cached\<lparr>cache_log := [Get ''capsules_u1'']\<rparr>)"
    by (simp add: prod_eq_iff world_cached_def world0_def)
  from cache_aside [OF a b c k g r2, THEN conjunct2, rule_format, OF miss]
  have "fst (list_route env0 req_u1 world_store) = res_json 200 (JArr [toJSON (capsule_T 0)])
      \<and> find_log (snd (list_route env0 req_u1 world_store)) =
          find_log world_store @ [id_jwt \<lparr>id_jwt = ''u1''\<rparr>]
      \<and> cache (snd (list_route env0 req_u1 world_store)) =
          (cache world_store)(''capsules_u1'' \<mapsto> (JSON_stringify (JArr [toJSON (capsule_T 0)]), 3600))"
    by simp
  then have 2: "fst (list_route env0 req_u1 world_store) = res_json 200 (JArr [toJSON (capsule_T 0)])
      \<and> find_log (snd (list_route env0 req_u1 world_store)) = [''u1'']
      \<and> cache (snd (list_route env0 req_u1 world_store)) ''capsules_u1'' =
          Some (JSON_stringify (JArr [toJSON (capsule_T 0)]), 3600)"
    by (simp add: world_store_def world0_def)
  have 3: "cache world_store ''capsules_u1'' = None"
    by (simp add: world_store_def world0_def)
  from 1 2 3 a c hit show ?thesis by simp
qed


text \<open>
  C7: for an authenticated listing request whose cache lookup misses and whose store
  query succeeds, a cache write that throws gives status 500 with the message
  \<^verbatim>\<open>Server error\<close>: the records read are not in the response, nothing is cached, and
  the response is the one a failing store query gives.
\<close>

theorem cache_write_failure:
  assumes "authorization req = Some t" and "t \<noteq> []" and "jwt_verify e t = Inr u"
    and "cacheKey = ''capsules_'' @ id_jwt u"
    and "redis_get_fault e cacheKey = None"
    and "\<not> truthy (map_option fst (cache w cacheKey))"
    and "find_fault e (id_jwt u) = None"
    and "found = JArr (map toJSON (filter (\<lambda>c. user c = id_jwt u) (capsules w)))"
    and "redis_setEx_fault e cacheKey 3600 (JSON_stringify found) = Some err"
  shows "list_route e req w =
           (res_json 500 (JObj [(''message'', JStr ''Server error'')]),
            w\<lparr>cache_log := cache_log w @ [Get cacheKey, SetEx cacheKey 3600 (JSON_stringify found)],
              find_log := find_log w @ [id_jwt u]\<rparr>)
         \<and> json_body (fst (list_route e req w)) \<noteq> found
         \<and> cache (snd (list_route e req w)) = cache w
         \<and> (\<forall>e2 err2. jwt_verify e2 t = Inr u \<and> redis_get_fault e2 cacheKey = None
                \<and> find_fault e2 (id_jwt u) = Some err2 \<longrightarrow>
              fst (list_route e2 req w) = fst (list_route e req w))"
proof -
  have 1: "list_route e req w =
           (res_json 500 (JObj [(''message'', JStr ''Server error'')]),
            w\<lparr>cache_log := cache_log w @ [Get cacheKey, SetEx cacheKey 3600 (JSON_stringify found)],
              find_log := find_log w @ [id_jwt u]\<rparr>)"
    unfolding list_route_verified [OF assms(1-3)]
    using assms(4-9)
    by (simp add: list_handler_def Let_def find_capsules_def server_error_def)
  have 2: "fst (list_route e2 req w) = fst (list_route e req w)"
    if "jwt_verify e2 t = Inr u \<and> redis_get_fault e2 cacheKey = None
                \<and> find_fault e2 (id_jwt u) = Some err2" for e2 err2
  proof -
    from that have v: "jwt_verify e2 t = Inr u" by simp
    show ?thesis
      unfolding 1 list_route_verified [OF assms(1,2) v]
      using assms(4,6) that
      by (simp add: list_handler_def Let_def server_error_def)
  qed
  from 1 2 assms(8) show ?thesis
    by (simp add: res_json_def)
qed

theorem cache_write_failure_witness:
  "authorization req_u1 = Some ''token-of-u1''
   \<and> jwt_verify env0 ''token-of-u1'' = Inr \<lparr>id_jwt = ''u1''\<rparr>
   \<and> \<not> truthy (map_option fst (cache world_store ''capsules_u1''))
   \<and> fst (list_route (env0\<lparr>redis_setEx_fault := (\<lambda>_ _ _. Some (Error ''Connection is closed''))\<rparr>)
            req_u1 world_store) =
       res_json 500 (JObj [(''message'', JStr ''Server error'')])
   \<and> find_log (snd (list_route
            (env0\<lparr>redis_setEx_fault := (\<lambda>_ _ _. Some (Error ''Connection is closed''))\<rparr>)
            req_u1 world_store)) = [''u1'']
   \<and> fst (list_route (env0\<lparr>find_fault := (\<lambda>_. Some (Error ''Topology is closed''))\<rparr>)
            req_u1 world_store) =
       res_json 500 (JObj [(''message'', JStr ''Server error'')])"
proof -
  let ?e1 = "env0\<lparr>redis_setEx_fault := (\<lambda>_ _ _. Some (Error ''Connection is closed''))\<rparr>"
  let ?e2 = "env0\<lparr>find_fault := (\<lambda>_. Some (Error ''Topology is closed''))\<rparr>"
  let ?found = "JArr (map toJSON (filter (\<lambda>c. user c = id_jwt \<lparr>id_jwt = ''u1''\<rparr>) (capsules world_store)))"
  have a: "authorization req_u1 = Some ''token-of-u1''" and b: "''token-of-u1'' \<noteq> []"
    and c: "jwt_verify ?e1 ''token-of-u1'' = Inr \<lparr>id_jwt = ''u1''\<rparr>"
    and c0: "jwt_verify env0 ''token-of-u1'' = Inr \<lparr>id_jwt = ''u1''\<rparr>"
    and k: "''capsules_u1'' = ''capsules_'' @ id_jwt \<lparr>id_jwt = ''u1''\<rparr>"
    and g: "redis_get_fault ?e1 ''capsules_u1'' = None"
    and m: "\<not> truthy (map_option fst (cache world_store ''capsules_u1''))"
    and f: "find_fault ?e1 (id_jwt \<lparr>id_jwt = ''u1''\<rparr>) = None"
    and x: "redis_setEx_fault ?e1 ''capsules_u1'' 3600 (JSON_stringify ?found) =
              Some (Error ''Connection is closed'')"
    and y: "jwt_verify ?e2 ''token-of-u1'' = Inr \<lparr>id_jwt = ''u1''\<rparr>
              \<and> redis_get_fault ?e2 ''capsules_u1'' = None
              \<and> find_fault ?e2 (id_jwt \<lparr>id_jwt = ''u1''\<rparr>) = Some (Error ''Topology is closed'')"
    by (simp_all add: req_u1_def req0_def env0_def world_store_def world0_def truthy_def)
  note th = cache_write_failure [OF a b c k g m f refl x]
  from th [THEN conjunct1]
  have 1: "fst (list_route ?e1 req_u1 world_store) =
             res_json 500 (JObj [(''message'', JStr ''Server error'')])
           \<and> find_log (snd (list_route ?e1 req_u1 world_store)) = [''u1'']"
    by (simp add: world_store_def world0_def)
  from th [THEN conjunct2, THEN conjunct2, THEN conjunct2, rule_format, OF y]
  have 2: "fst (list_route ?e2 req_u1 world_store) = fst (list_route ?e1 req_u1 world_store)" .
  from 1 2 a c0 m show ?thesis by simp
qed

text \<open>
  C10: for a caller who owns no capsule, a first listing that misses the cache
  writes the text \<^verbatim>\<open>[]\<close> to it, the serialization of the empty list, and returns
  the empty list; that text is not empty, so the truth test holds on it, and a
  second listing returns the empty list from the cache without a query to the
  store.
\<close>

theorem empty_listing_cached:
  assumes "authorization req = Some t" and "t \<noteq> []" and "jwt_verify e t = Inr u"
    and "cacheKey = ''capsules_'' @ id_jwt u"
    and "\<not> truthy (map_option fst (cache w cacheKey))"
    and "filter (\<lambda>c. user c = id_jwt u) (capsules w) = []"
    and "redis_get_fault e cacheKey = None"
    and "find_fault e (id_jwt u) = None"
    and "redis_setEx_fault e cacheKey 3600 ''[]'' = None"
    and "JSON_parse e ''[]'' = Inr (JArr [])"
    and "list_route e req w = (res1, w1)" and "list_route e req w1 = (res2, w2)"
  shows "JSON_stringify (JArr (map toJSON [])) = ''[]''
         \<and> truthy (Some ''[]'')
         \<and> res1 = res_json 200 (JArr [])
         \<and> cache w1 cacheKey = Some (''[]'', 3600)
         \<and> find_log w1 = find_log w @ [id_jwt u]
         \<and> res2 = res_json 200 (JArr [])
         \<and> find_log w2 = find_log w1
         \<and> w2 = w1\<lparr>cache_log := cache_log w1 @ [Get cacheKey]\<rparr>"
proof -
  have s: "JSON_stringify (JArr (map toJSON [])) = ''[]''"
    by simp
  have 1: "res1 = res_json 200 (JArr [])"
    and w1: "w1 = w\<lparr>cache_log := cache_log w @ [Get cacheKey, SetEx cacheKey 3600 ''[]''],
                   find_log := find_log w @ [id_jwt u],
                   cache := (cache w)(cacheKey \<mapsto> (''[]'', 3600))\<rparr>"
    using assms(11) assms(4-9) unfolding list_route_verified [OF assms(1-3)]
    by (auto simp: list_handler_def Let_def find_capsules_def)
  have 2: "res2 = res_json 200 (JArr []) \<and> w2 = w1\<lparr>cache_log := cache_log w1 @ [Get cacheKey]\<rparr>"
    using assms(12) assms(4,7,10) unfolding list_route_verified [OF assms(1-3)] w1
    by (auto simp: list_handler_def Let_def truthy_def)
  then have 3: "find_log w2 = find_log w1"
    by simp
  from s 1 w1 2 3 show ?thesis
    by (simp add: truthy_def)
qed

theorem empty_listing_cached_witness:
  "authorization req_u1 = Some ''token-of-u1''
   \<and> jwt_verify env0 ''token-of-u1'' = Inr \<lparr>id_jwt = ''u1''\<rparr>
   \<and> capsules world0 = [] \<and> cache world0 ''capsules_u1'' = None
   \<and> JSON_parse env0 ''[]'' = Inr (JArr [])
   \<and> fst (list_route env0 req_u1 world0) = res_json 200 (JArr [])
   \<and> cache (snd (list_route env0 req_u1 world0)) ''capsules_u1'' = Some (''[]'', 3600)
   \<and> find_log (snd (list_route env0 req_u1 world0)) = [''u1'']
   \<and> fst (list_route env0 req_u1 (snd (list_route env0 req_u1 world0))) = res_json 200 (JArr [])
   \<and> find_log (snd (list_route env0 req_u1 (snd (list_route env0 req_u1 world0)))) = [''u1'']"
proof -
  let ?w1 = "snd (list_route env0 req_u1 world0)"
  have a: "authorization req_u1 = Some ''token-of-u1''" and b: "''token-of-u1'' \<noteq> []"
    and c: "jwt_verify env0 ''token-of-u1'' = Inr \<lparr>id_jwt = ''u1''\<rparr>"
    and k: "''capsules_u1'' = ''capsules_'' @ id_jwt \<lparr>id_jwt = ''u1''\<rparr>"
    and m: "\<not> truthy (map_option fst (cache world0 ''capsules_u1''))"
    and z: "filter (\<lambda>c. user c = id_jwt \<lparr>id_jwt = ''u1''\<rparr>) (capsules world0) = []"
    and g: "redis_get_fault env0 ''capsules_u1'' = None"
    and f: "find_fault env0 (id_jwt \<lparr>id_jwt = ''u1''\<rparr>) = None"
    and x: "redis_setEx_fault env0 ''capsules_u1'' 3600 ''[]'' = None"
    and p: "JSON_parse env0 ''[]'' = Inr (JArr [])"
    and o: "capsules world0 = []" "cache world0 ''capsules_u1'' = None" "find_log world0 = []"
    by (simp_all add: req_u1_def req0_def env0_def world0_def truthy_def)
  have r1: "list_route env0 req_u1 world0 = (fst (list_route env0 req_u1 world0), ?w1)"
    and r2: "list_route env0 req_u1 ?w1 =
      (fst (list_route env0 req_u1 ?w1), snd (list_route env0 req_u1 ?w1))"
    by simp_all
  from empty_listing_cached [OF a b c k m z g f x p r1 r2] show ?thesis
    using a c p o by simp
qed

end
